theory Spec2Isabelle
  imports Complex_Main
begin

section \<open>The simulation core of TeslaOutrun.svelte\<close>

text \<open>
  The component keeps its game state in module-level variables and mutates them from
  the frame callback and from the key handler. The model below gathers those variables
  in one record and passes it explicitly. JavaScript numbers are modelled as exact
  reals. What \<open>spawnObstacle\<close> takes from its environment is a parameter of the
  model: the two results of \<open>Math.random()\<close> that decide where and what it
  creates, and the newly allocated object. Meshes, materials, particles and HUD text
  are left out: no modelled variable is read from them.
\<close>

subsection \<open>Tuning constants\<close>

definition maxSpeed :: real where "maxSpeed = 500"
definition acceleration :: real where "acceleration = 2"
definition brakeForce :: real where "brakeForce = 5"
definition deceleration :: real where "deceleration = 0.95"
definition lanePositions :: "real list" where "lanePositions = [-4, 0, 4]"
definition roadLength :: real where "roadLength = 2000"
definition segmentLength :: real where "segmentLength = 20"
definition cameraDistance :: real where "cameraDistance = -15"
definition obstacleInterval :: real where "obstacleInterval = 2"
definition jumpGravity :: real where "jumpGravity = 0.01"
definition maxJumpHeight :: real where "maxJumpHeight = 5"
definition jumpInitialVelocity :: real where "jumpInitialVelocity = 15"

text \<open>The player's box, set once in \<open>createPlayerCar\<close>.\<close>

definition playerWidth :: real where "playerWidth = 3"
definition playerHeight :: real where "playerHeight = 6"

subsection \<open>Data\<close>

text \<open>
  An obstacle is a scene object with a position and a \<open>userData\<close> bag. The array
  \<open>obstacles\<close> holds references, and the code finds and mutates obstacles by
  reference; \<open>obj_id\<close> is the identity of the object. The three
  category flags are only ever read for truthiness, so an absent flag is \<open>False\<close>.
  \<open>userData.overtaken\<close> is kept optional, because \<open>spawnObstacle\<close> leaves it
  unset on a barrier; \<open>None\<close> is JavaScript's \<open>undefined\<close>.
\<close>

record obstacle =
  obj_id :: nat
  pos_x :: real
  pos_y :: real
  pos_z :: real
  isCar :: bool
  isBarrier :: bool
  isRocket :: bool
  overtaken :: "bool option"
  ud_width :: real
  ud_height :: real

definition truthy :: "bool option \<Rightarrow> bool" where
  "truthy b = (case b of None \<Rightarrow> False | Some v \<Rightarrow> v)"

text \<open>Road segments and stripes carry a logical z beside the z of their mesh.\<close>

record segment =
  seg_z :: real
  seg_mesh_z :: real

text \<open>
  Trees and buildings also carry a field \<open>z\<close>, written at creation and never
  again; the frame update moves the meshes only.
\<close>

record tree =
  trunk_z :: real
  foliage_z :: real
  tree_z :: real

record building =
  bmesh_z :: real
  building_z :: real

record state =
  score :: real
  speed :: real
  gameActive :: bool
  lane :: nat
  elapsedTime :: real
  lastObstacleTime :: real
  carsOvertaken :: nat
  lives :: int
  isJumping :: bool
  jumpHeight :: real
  jumpVelocity :: real
  jumpStartTime :: real
  isPaused :: bool
  player_x :: real
  player_y :: real
  player_z :: real
  obstacles :: "obstacle list"
  roadSegments :: "segment list"
  roadStripes :: "segment list"
  trees :: "tree list"
  buildings :: "building list"
  gameOverScreen :: bool

subsection \<open>Vehicle: speed, jump, steering\<close>

text \<open>Lines 256 to 265 of \<open>updateGame\<close>: accelerate, decelerate, clamp.\<close>

definition updateSpeed :: "state \<Rightarrow> state" where
  "updateSpeed s =
     (let sp1 = (if speed s < maxSpeed * 0.4 then speed s + acceleration else speed s);
          sp2 = sp1 * deceleration
      in s\<lparr>speed := max 0 (min maxSpeed sp2)\<rparr>)"

text \<open>Lines 273 to 297: one explicit Euler step of the jump, the cap, the landing.\<close>

definition updateJump :: "state \<Rightarrow> state" where
  "updateJump s =
     (if isJumping s then
        (let s1 = s\<lparr>jumpHeight := jumpHeight s + jumpVelocity s\<rparr>;
             s2 = s1\<lparr>jumpVelocity := jumpVelocity s1 - jumpGravity\<rparr>;
             s3 = (if jumpHeight s2 > maxJumpHeight
                   then s2\<lparr>jumpHeight := maxJumpHeight, jumpVelocity := 0\<rparr> else s2);
             s4 = (if jumpHeight s3 \<le> 0
                   then s3\<lparr>isJumping := False, jumpHeight := 0, jumpVelocity := 0\<rparr> else s3)
         in s4\<lparr>player_y := jumpHeight s4\<rparr>)
      else s\<lparr>player_y := 0\<rparr>)"

text \<open>
  Lines 299 to 301. The lane index stays in \<open>{0, 1, 2}\<close>: it starts at 1 and the key
  handler guards both directions.
\<close>

definition steer :: "state \<Rightarrow> state" where
  "steer s =
     (let targetX = lanePositions ! lane s
      in s\<lparr>player_x := player_x s + (targetX - player_x s) * 0.1\<rparr>)"

subsection \<open>Session transitions\<close>

definition gameOver :: "state \<Rightarrow> state" where
  "gameOver s = s\<lparr>gameActive := False, gameOverScreen := True\<rparr>"

definition startGame :: "state \<Rightarrow> state" where
  "startGame s =
     s\<lparr>gameActive := True, speed := 0, score := 0, carsOvertaken := 0,
       elapsedTime := 0, lastObstacleTime := 0, lives := 3\<rparr>"

definition restartGame :: "state \<Rightarrow> state" where
  "restartGame s =
     startGame (s\<lparr>obstacles := [], player_x := 0, player_y := 0, player_z := 0,
                  lane := 1, gameOverScreen := False\<rparr>)"

subsection \<open>Collision detector\<close>

definition overlaps :: "state \<Rightarrow> obstacle \<Rightarrow> bool" where
  "overlaps s ob =
     (let playerLeft = player_x s - playerWidth / 2;
          playerRight = player_x s + playerWidth / 2;
          playerFront = player_z s + playerHeight / 2;
          playerBack = player_z s - playerHeight / 2;
          playerBottom = player_y s;
          playerTop = player_y s + 2;
          obstacleLeft = pos_x ob - ud_width ob / 2;
          obstacleRight = pos_x ob + ud_width ob / 2;
          obstacleFront = pos_z ob + ud_height ob / 2;
          obstacleBack = pos_z ob - ud_height ob / 2;
          obstacleBottom = pos_y ob;
          obstacleTop = pos_y ob + 2
      in playerRight > obstacleLeft \<and> playerLeft < obstacleRight \<and>
         playerFront > obstacleBack \<and> playerBack < obstacleFront \<and>
         playerTop > obstacleBottom \<and> playerBottom < obstacleTop)"

text \<open>
  \<open>handleCollision\<close> receives the colliding object and splices it out at
  \<open>obstacles.indexOf(obstacle)\<close>. Every obstacle is a distinct object pushed once,
  so that index is the loop index at which \<open>checkCollisions\<close> found it; the model
  passes the index.
\<close>

definition handleCollision :: "nat \<Rightarrow> state \<Rightarrow> state" where
  "handleCollision i s =
     (let s1 = s\<lparr>obstacles := take i (obstacles s) @ drop (Suc i) (obstacles s)\<rparr>;
          s2 = s1\<lparr>lives := lives s1 - 1\<rparr>;
          s3 = s2\<lparr>isPaused := True\<rparr>
      in if lives s3 \<le> 0 then gameOver s3 else s3)"

text \<open>The scan of lines 492 to 515: the index of the first overlapping obstacle.\<close>

fun firstOverlap :: "state \<Rightarrow> obstacle list \<Rightarrow> nat option" where
  "firstOverlap s [] = None"
| "firstOverlap s (ob # obs) =
     (if overlaps s ob then Some 0 else map_option Suc (firstOverlap s obs))"

definition checkCollisions :: "state \<Rightarrow> state" where
  "checkCollisions s =
     (if isJumping s \<and> jumpHeight s > 2 then s
      else (case firstOverlap s (obstacles s) of
              None \<Rightarrow> s
            | Some i \<Rightarrow> handleCollision i s))"

subsection \<open>Score\<close>

text \<open>
  The loop of lines 741 to 755, threading the score and the overtaken count through the
  obstacle array.
\<close>

definition overtakeDue :: "real \<Rightarrow> obstacle \<Rightarrow> bool" where
  "overtakeDue pz ob =
     ((isCar ob \<or> isRocket ob) \<and> \<not> truthy (overtaken ob) \<and> pos_z ob < pz)"

fun overtakeLoop :: "real \<Rightarrow> obstacle list \<Rightarrow> real \<Rightarrow> nat \<Rightarrow> obstacle list \<times> real \<times> nat" where
  "overtakeLoop pz [] sc n = ([], sc, n)"
| "overtakeLoop pz (ob # obs) sc n =
     (if overtakeDue pz ob
      then (case overtakeLoop pz obs (sc + 100) (Suc n) of
              (obs', sc', n') \<Rightarrow> (ob\<lparr>overtaken := Some True\<rparr> # obs', sc', n'))
      else (case overtakeLoop pz obs sc n of
              (obs', sc', n') \<Rightarrow> (ob # obs', sc', n')))"

definition updateScore :: "real \<Rightarrow> state \<Rightarrow> state" where
  "updateScore deltaTime s =
     (case overtakeLoop (player_z s) (obstacles s)
             (score s + deltaTime * speed s / 10) (carsOvertaken s) of
        (obs', sc', n') \<Rightarrow> s\<lparr>score := sc', carsOvertaken := n', obstacles := obs'\<rparr>)"

subsection \<open>Obstacles: movement, retirement, spawning\<close>

text \<open>
  Lines 327 to 336 walk the array backwards and splice out what fell behind the camera;
  what is left is the moved obstacles that did not, in their old order.
\<close>

fun moveObstacles :: "real \<Rightarrow> obstacle list \<Rightarrow> obstacle list" where
  "moveObstacles moveDistance [] = []"
| "moveObstacles moveDistance (ob # obs) =
     (let ob' = ob\<lparr>pos_z := pos_z ob - moveDistance\<rparr>
      in if pos_z ob' < cameraDistance then moveObstacles moveDistance obs
         else ob' # moveObstacles moveDistance obs)"

text \<open>
  \<open>rLane\<close> and \<open>rType\<close> are the results of the two calls of \<open>Math.random()\<close>,
  each in \<open>[0, 1)\<close>, so the lane index is 0, 1 or 2. \<open>objId\<close> is the identity of
  the object that \<open>new THREE.Group()\<close> or \<open>new THREE.Mesh(...)\<close> returns.
\<close>

definition newObstacle :: "nat \<Rightarrow> real \<Rightarrow> real \<Rightarrow> obstacle" where
  "newObstacle objId rLane rType =
     (let obstacleLane = nat \<lfloor>rLane * 3\<rfloor>;
          obstacleType = rType;
          blank = \<lparr>obj_id = objId, pos_x = 0, pos_y = 0, pos_z = 0, isCar = False, isBarrier = False,
                   isRocket = False, overtaken = None, ud_width = 0, ud_height = 0\<rparr>;
          ob = (if obstacleType < 0.7 then blank\<lparr>isCar := True, overtaken := Some False\<rparr>
                else if obstacleType < 0.85 then blank\<lparr>isBarrier := True\<rparr>
                else blank\<lparr>isRocket := True, overtaken := Some False\<rparr>);
          ob1 = ob\<lparr>pos_x := lanePositions ! obstacleLane, pos_y := 1, pos_z := roadLength / 2\<rparr>
      in ob1\<lparr>ud_width := 3, ud_height := 5\<rparr>)"

definition spawnObstacle :: "nat \<Rightarrow> real \<Rightarrow> real \<Rightarrow> state \<Rightarrow> state" where
  "spawnObstacle objId rLane rType s =
     s\<lparr>obstacles := obstacles s @ [newObstacle objId rLane rType]\<rparr>"

text \<open>The gate of line 339.\<close>

definition spawnDue :: "state \<Rightarrow> bool" where
  "spawnDue s =
     (elapsedTime s - lastObstacleTime s
        > obstacleInterval - (speed s / maxSpeed) * (obstacleInterval - 0.5))"

definition spawnCheck :: "nat \<Rightarrow> real \<Rightarrow> real \<Rightarrow> state \<Rightarrow> state" where
  "spawnCheck objId rLane rType s =
     (if spawnDue s
      then (spawnObstacle objId rLane rType s)\<lparr>lastObstacleTime := elapsedTime s\<rparr>
      else s)"

subsection \<open>Scenery: advance and recycle\<close>

definition advanceSegment :: "real \<Rightarrow> segment \<Rightarrow> segment" where
  "advanceSegment moveDistance g =
     g\<lparr>seg_z := seg_z g - moveDistance, seg_mesh_z := seg_mesh_z g - moveDistance\<rparr>"

definition recycleSegment :: "segment \<Rightarrow> segment" where
  "recycleSegment g =
     (if seg_z g < cameraDistance - segmentLength / 2
      then g\<lparr>seg_z := seg_z g + roadLength, seg_mesh_z := seg_mesh_z g + roadLength\<rparr>
      else g)"

definition recycleStripe :: "segment \<Rightarrow> segment" where
  "recycleStripe g =
     (if seg_z g < cameraDistance - 20
      then g\<lparr>seg_z := seg_z g + roadLength, seg_mesh_z := seg_mesh_z g + roadLength\<rparr>
      else g)"

definition advanceTree :: "real \<Rightarrow> tree \<Rightarrow> tree" where
  "advanceTree moveDistance t =
     t\<lparr>trunk_z := trunk_z t - moveDistance, foliage_z := foliage_z t - moveDistance\<rparr>"

definition recycleTree :: "tree \<Rightarrow> tree" where
  "recycleTree t =
     (if trunk_z t < cameraDistance - 20
      then (let resetDistance = roadLength + (cameraDistance - trunk_z t)
            in t\<lparr>trunk_z := trunk_z t + resetDistance,
                 foliage_z := foliage_z t + resetDistance\<rparr>)
      else t)"

definition advanceBuilding :: "real \<Rightarrow> building \<Rightarrow> building" where
  "advanceBuilding moveDistance b = b\<lparr>bmesh_z := bmesh_z b - moveDistance\<rparr>"

definition recycleBuilding :: "building \<Rightarrow> building" where
  "recycleBuilding b =
     (if bmesh_z b < cameraDistance - 20
      then (let resetDistance = roadLength + (cameraDistance - bmesh_z b)
            in b\<lparr>bmesh_z := bmesh_z b + resetDistance\<rparr>)
      else b)"

definition scrollScenery :: "real \<Rightarrow> state \<Rightarrow> state" where
  "scrollScenery moveDistance s =
     s\<lparr>roadSegments := map (recycleSegment \<circ> advanceSegment moveDistance) (roadSegments s),
       roadStripes := map (recycleStripe \<circ> advanceSegment moveDistance) (roadStripes s),
       trees := map (recycleTree \<circ> advanceTree moveDistance) (trees s),
       buildings := map (recycleBuilding \<circ> advanceBuilding moveDistance) (buildings s)\<rparr>"

subsection \<open>The frame update\<close>

definition updateGame :: "real \<Rightarrow> nat \<Rightarrow> real \<Rightarrow> real \<Rightarrow> state \<Rightarrow> state" where
  "updateGame deltaTime objId rLane rType s =
     (let s0 = s\<lparr>elapsedTime := elapsedTime s + deltaTime\<rparr>
      in if isPaused s0 then s0
         else
           (let s1 = updateSpeed s0;
                s2 = updateJump s1;
                s3 = steer s2;
                s4 = checkCollisions s3;
                s5 = updateScore deltaTime s4;
                moveDistance = speed s5 * deltaTime;
                s6 = s5\<lparr>obstacles := moveObstacles moveDistance (obstacles s5)\<rparr>;
                s7 = spawnCheck objId rLane rType s6
            in scrollScenery moveDistance s7))"

definition animate :: "real \<Rightarrow> nat \<Rightarrow> real \<Rightarrow> real \<Rightarrow> state \<Rightarrow> state" where
  "animate deltaTime objId rLane rType s =
     (if gameActive s then updateGame deltaTime objId rLane rType s else s)"

subsection \<open>The key handler\<close>

definition startJump :: "state \<Rightarrow> state" where
  "startJump s =
     (if \<not> isJumping s
      then s\<lparr>isJumping := True, jumpVelocity := jumpInitialVelocity, jumpHeight := 0,
             jumpStartTime := elapsedTime s\<rparr>
      else s)"

definition onKeyDown :: "string \<Rightarrow> state \<Rightarrow> state" where
  "onKeyDown key s =
     (if \<not> gameActive s \<and> \<not> isPaused s then s
      else if isPaused s \<and> key = '' '' then s\<lparr>isPaused := False\<rparr>
      else if isPaused s then s
      else if key = ''ArrowRight'' then (if lane s > 0 then s\<lparr>lane := lane s - 1\<rparr> else s)
      else if key = ''ArrowLeft'' then (if lane s < 2 then s\<lparr>lane := lane s + 1\<rparr> else s)
      else if key = ''ArrowUp'' then s\<lparr>speed := min maxSpeed (speed s + acceleration * 5)\<rparr>
      else if key = ''ArrowDown'' then s\<lparr>speed := max 0 (speed s - brakeForce * 5)\<rparr>
      else if key = '' '' then startJump (s\<lparr>speed := max 0 (speed s - brakeForce * 5)\<rparr>)
      else if key = ''j'' \<or> key = ''J'' then startJump s
      else s)"

subsection \<open>Session states\<close>

text \<open>
  The code has no session variable. The frame callback runs the update only while
  \<open>gameActive\<close> holds and the update stops after the clock while \<open>isPaused\<close>
  holds; \<open>gameOver\<close> shows the game-over panel. The session state is read off these.
\<close>

datatype session = Idle | Running | Paused | GameOver

definition sessionState :: "state \<Rightarrow> session" where
  "sessionState s =
     (if gameActive s then (if isPaused s then Paused else Running)
      else if gameOverScreen s then GameOver else Idle)"

subsection \<open>Runs and overtake credits\<close>

text \<open>
  What the page does over time is a sequence of events: animation frames, each with
  its clock delta and what \<open>spawnObstacle\<close> would draw and allocate, key presses,
  and clicks on the start and restart buttons.
\<close>

datatype event = Frame real nat real real | Key string | Start | Restart

fun step :: "event \<Rightarrow> state \<Rightarrow> state" where
  "step (Frame deltaTime objId rLane rType) s = animate deltaTime objId rLane rType s"
| "step (Key key) s = onKeyDown key s"
| "step Start s = startGame s"
| "step Restart s = restartGame s"

fun run :: "event list \<Rightarrow> state \<Rightarrow> state" where
  "run [] s = s"
| "run (e # es) s = run es (step e s)"

text \<open>
  \<open>updateScore\<close> credits the obstacles that pass the test of its loop.
  \<open>scoringState\<close> is the state in which an unpaused frame calls it, so
  \<open>credited\<close> lists the objects that one event credits, and \<open>creditLog\<close> the
  objects that a run credits, one entry for each credit.
\<close>

definition creditsNow :: "state \<Rightarrow> obstacle list" where
  "creditsNow s = filter (overtakeDue (player_z s)) (obstacles s)"

definition scoringState :: "real \<Rightarrow> state \<Rightarrow> state" where
  "scoringState deltaTime s =
     checkCollisions (steer (updateJump (updateSpeed
       (s\<lparr>elapsedTime := elapsedTime s + deltaTime\<rparr>))))"

fun credited :: "event \<Rightarrow> state \<Rightarrow> nat list" where
  "credited (Frame deltaTime objId rLane rType) s =
     (if gameActive s \<and> \<not> isPaused s
      then map obj_id (creditsNow (scoringState deltaTime s)) else [])"
| "credited (Key key) s = []"
| "credited Start s = []"
| "credited Restart s = []"

fun creditLog :: "event list \<Rightarrow> state \<Rightarrow> nat list" where
  "creditLog [] s = []"
| "creditLog (e # es) s = credited e s @ creditLog es (step e s)"

text \<open>The objects that the frames of a run may allocate.\<close>

fun allocated :: "event list \<Rightarrow> nat list" where
  "allocated [] = []"
| "allocated (Frame deltaTime objId rLane rType # es) = objId # allocated es"
| "allocated (e # es) = allocated es"

text \<open>The live objects whose \<open>overtaken\<close> flag is not set.\<close>

definition uncredited :: "obstacle list \<Rightarrow> nat set" where
  "uncredited obs = obj_id ` {ob \<in> set obs. \<not> truthy (overtaken ob)}"

subsection \<open>The spawn gate in the words of the specification\<close>

text \<open>
  The specification writes the gate with a parameter \<open>minInterval\<close>: the spawner
  fires when \<open>elapsedTime - lastSpawnTime > obstacleInterval - (speed/maxSpeed) \<times>
  (obstacleInterval - minInterval)\<close>. These two definitions follow that sentence, to be
  compared with \<open>spawnDue\<close>.
\<close>

definition specSpawnGap :: "real \<Rightarrow> real \<Rightarrow> real" where
  "specSpawnGap minInterval v =
     obstacleInterval - (v / maxSpeed) * (obstacleInterval - minInterval)"

definition specSpawnDue :: "real \<Rightarrow> state \<Rightarrow> bool" where
  "specSpawnDue minInterval s =
     (elapsedTime s - lastObstacleTime s > specSpawnGap minInterval (speed s))"

subsection \<open>Example states\<close>

text \<open>
  The variables as \<open>startGame\<close> leaves them on a freshly loaded page, without
  scenery, and a car of the centre lane brought to the player's position.
\<close>

definition startedState :: state where
  "startedState =
     \<lparr>score = 0, speed = 0, gameActive = True, lane = 1, elapsedTime = 0,
      lastObstacleTime = 0, carsOvertaken = 0, lives = 3, isJumping = False,
      jumpHeight = 0, jumpVelocity = 0, jumpStartTime = 0, isPaused = False,
      player_x = 0, player_y = 0, player_z = 0, obstacles = [], roadSegments = [],
      roadStripes = [], trees = [], buildings = [], gameOverScreen = False\<rparr>"

definition carAtPlayer :: obstacle where
  "carAtPlayer = (newObstacle 0 0.5 0.5)\<lparr>pos_z := 0\<rparr>"

text \<open>A car of the right lane, one unit behind the player, not yet credited.\<close>

definition passedCar :: obstacle where
  "passedCar = (newObstacle 0 0.9 0.5)\<lparr>pos_z := -1\<rparr>"

section \<open>Properties\<close>

text \<open>
  C3. While the vehicle is jumping with a vertical offset above 2, the collision check
  does nothing, whatever obstacles are live: the state it returns is the state it got,
  so no obstacle is removed, no life is lost and the session state stays.
\<close>

theorem jump_immunity:
  "isJumping s \<and> jumpHeight s > 2 \<Longrightarrow>
     checkCollisions s = s \<and>
     obstacles (checkCollisions s) = obstacles s \<and>
     lives (checkCollisions s) = lives s \<and>
     sessionState (checkCollisions s) = sessionState s"
  by (simp add: checkCollisions_def)

lemma carAtPlayer_simps:
  "pos_x carAtPlayer = 0" "pos_y carAtPlayer = 1" "pos_z carAtPlayer = 0"
  "ud_width carAtPlayer = 3" "ud_height carAtPlayer = 5"
  "isCar carAtPlayer" "overtaken carAtPlayer = Some False"
  by (simp_all add: carAtPlayer_def newObstacle_def lanePositions_def Let_def)

theorem jump_immunity_witness:
  "isJumping (startedState\<lparr>isJumping := True, jumpHeight := 2.5, player_y := 2.5,
                            obstacles := [carAtPlayer]\<rparr>) \<and>
   jumpHeight (startedState\<lparr>isJumping := True, jumpHeight := 2.5, player_y := 2.5,
                             obstacles := [carAtPlayer]\<rparr>) > 2 \<and>
   overlaps (startedState\<lparr>isJumping := True, jumpHeight := 2.5, player_y := 2.5,
                           obstacles := [carAtPlayer]\<rparr>) carAtPlayer \<and>
   checkCollisions (startedState\<lparr>isJumping := True, jumpHeight := 2.5, player_y := 2.5,
                                  obstacles := [carAtPlayer]\<rparr>)
     = startedState\<lparr>isJumping := True, jumpHeight := 2.5, player_y := 2.5,
                     obstacles := [carAtPlayer]\<rparr>"
  using jump_immunity [of "startedState\<lparr>isJumping := True, jumpHeight := 2.5,
                                         player_y := 2.5, obstacles := [carAtPlayer]\<rparr>"]
  by (simp add: startedState_def overlaps_def carAtPlayer_simps playerWidth_def
        playerHeight_def)

text \<open>
  C10. A frame update that finds the pause flag set adds the frame's time to
  \<open>elapsedTime\<close> and returns: speed, score, lives, lane, overtaken count, jump
  state, player position, obstacles and every scenery coordinate are as before. The
  time of the last spawn stays too, so the time since the last spawn grows by the
  frame's time.
\<close>

theorem paused_frame:
  "isPaused s \<Longrightarrow>
     updateGame deltaTime objId rLane rType s = s\<lparr>elapsedTime := elapsedTime s + deltaTime\<rparr> \<and>
     elapsedTime (updateGame deltaTime objId rLane rType s)
       - lastObstacleTime (updateGame deltaTime objId rLane rType s)
       = (elapsedTime s - lastObstacleTime s) + deltaTime"
  by (simp add: updateGame_def Let_def)

theorem paused_frame_witness:
  "isPaused (startedState\<lparr>isPaused := True, obstacles := [carAtPlayer]\<rparr>) \<and>
   updateGame 0.5 0 0 0 (startedState\<lparr>isPaused := True, obstacles := [carAtPlayer]\<rparr>)
     = startedState\<lparr>isPaused := True, obstacles := [carAtPlayer], elapsedTime := 0.5\<rparr>"
  using paused_frame [of "startedState\<lparr>isPaused := True, obstacles := [carAtPlayer]\<rparr>"
                         "0.5" 0 0 0]
  by (simp add: startedState_def)

subsection \<open>Speed\<close>

lemma speed_updateSpeed:
  "0 \<le> speed (updateSpeed s) \<and> speed (updateSpeed s) \<le> maxSpeed"
  by (simp add: updateSpeed_def Let_def maxSpeed_def)

lemma speed_updateJump: "speed (updateJump s) = speed s"
  by (simp add: updateJump_def Let_def)

lemma speed_steer: "speed (steer s) = speed s"
  by (simp add: steer_def Let_def)

lemma speed_handleCollision: "speed (handleCollision i s) = speed s"
  by (simp add: handleCollision_def gameOver_def Let_def)

lemma speed_checkCollisions: "speed (checkCollisions s) = speed s"
  by (simp add: checkCollisions_def speed_handleCollision split: option.splits)

lemma speed_updateScore: "speed (updateScore dt s) = speed s"
  by (simp add: updateScore_def split: prod.splits)

lemma speed_spawnCheck: "speed (spawnCheck i a b s) = speed s"
  by (simp add: spawnCheck_def spawnObstacle_def)

lemma speed_scrollScenery: "speed (scrollScenery d s) = speed s"
  by (simp add: scrollScenery_def)

lemma speed_updateGame:
  "speed (updateGame dt i a b s) =
     (if isPaused s then speed s
      else speed (updateSpeed (s\<lparr>elapsedTime := elapsedTime s + dt\<rparr>)))"
  by (simp add: updateGame_def Let_def speed_scrollScenery speed_spawnCheck speed_updateScore
        speed_checkCollisions speed_steer speed_updateJump)

text \<open>
  C2. From a speed between 0 and \<open>maxSpeed\<close>, one frame update of a running session
  (active, not paused) with a frame time of at least 0 leaves the speed between 0 and
  \<open>maxSpeed\<close>.
\<close>

theorem speed_clamped:
  "gameActive s \<Longrightarrow> \<not> isPaused s \<Longrightarrow> 0 \<le> speed s \<Longrightarrow> speed s \<le> maxSpeed \<Longrightarrow>
   0 \<le> deltaTime \<Longrightarrow>
     0 \<le> speed (updateGame deltaTime objId rLane rType s) \<and>
     speed (updateGame deltaTime objId rLane rType s) \<le> maxSpeed"
  by (simp add: speed_updateGame speed_updateSpeed)

theorem speed_clamped_witness:
  "gameActive (startedState\<lparr>speed := 100\<rparr>) \<and>
   \<not> isPaused (startedState\<lparr>speed := 100\<rparr>) \<and>
   0 \<le> speed (startedState\<lparr>speed := 100\<rparr>) \<and>
   speed (startedState\<lparr>speed := 100\<rparr>) \<le> maxSpeed \<and> (0::real) \<le> 0.016 \<and>
   speed (updateGame 0.016 0 0 0 (startedState\<lparr>speed := 100\<rparr>)) = 96.9 \<and>
   0 \<le> speed (updateGame 0.016 0 0 0 (startedState\<lparr>speed := 100\<rparr>)) \<and>
   speed (updateGame 0.016 0 0 0 (startedState\<lparr>speed := 100\<rparr>)) \<le> maxSpeed"
  using speed_clamped [of "startedState\<lparr>speed := 100\<rparr>" "0.016" 0 0 0]
  by (simp add: startedState_def maxSpeed_def speed_updateGame updateSpeed_def
        acceleration_def deceleration_def)

text \<open>The throttle and brake keys clamp as well.\<close>

lemma speed_onKeyDown:
  "0 \<le> speed s \<Longrightarrow> speed s \<le> maxSpeed \<Longrightarrow>
     0 \<le> speed (onKeyDown key s) \<and> speed (onKeyDown key s) \<le> maxSpeed"
  by (simp add: onKeyDown_def startJump_def maxSpeed_def acceleration_def brakeForce_def)

subsection \<open>Collisions\<close>

lemma firstOverlap_Some:
  "firstOverlap s obs = Some i \<Longrightarrow>
     i < length obs \<and> overlaps s (obs ! i) \<and> (\<forall>j<i. \<not> overlaps s (obs ! j))"
proof (induction obs arbitrary: i)
  case Nil
  then show ?case by simp
next
  case (Cons ob obs)
  show ?case
  proof (cases "overlaps s ob")
    case True
    with Cons.prems show ?thesis by simp
  next
    case False
    with Cons.prems obtain k where k: "firstOverlap s obs = Some k" "i = Suc k"
      by auto
    from Cons.IH [OF k(1)] False k(2) show ?thesis
      by (auto simp: less_Suc_eq_0_disj)
  qed
qed

text \<open>
  C5. When the collision check finds a colliding obstacle while \<open>lives\<close> is 1, that
  obstacle is spliced out of the live array, \<open>lives\<close> becomes 0 and the session
  is over: \<open>gameActive\<close> is cleared and the game-over panel is shown, so the session
  state is GameOver and not Paused.
\<close>

theorem fatal_collision:
  assumes "\<not> (isJumping s \<and> jumpHeight s > 2)"
    and "firstOverlap s (obstacles s) = Some i"
    and "lives s = 1"
  shows "overlaps s (obstacles s ! i) \<and>
     obstacles (checkCollisions s) = take i (obstacles s) @ drop (Suc i) (obstacles s) \<and>
     length (obstacles (checkCollisions s)) = length (obstacles s) - 1 \<and>
     lives (checkCollisions s) = 0 \<and>
     gameActive (checkCollisions s) = False \<and>
     gameOverScreen (checkCollisions s) = True \<and>
     sessionState (checkCollisions s) = GameOver \<and>
     sessionState (checkCollisions s) \<noteq> Paused"
proof -
  from firstOverlap_Some [OF assms(2)]
  have i: "i < length (obstacles s)" "overlaps s (obstacles s ! i)"
    by simp_all
  from assms have c: "checkCollisions s = handleCollision i s"
    by (auto simp add: checkCollisions_def)
  from assms(3) have h: "handleCollision i s =
      s\<lparr>obstacles := take i (obstacles s) @ drop (Suc i) (obstacles s), lives := 0,
        isPaused := True, gameActive := False, gameOverScreen := True\<rparr>"
    by (simp add: handleCollision_def gameOver_def Let_def)
  from i show ?thesis
    by (simp add: c h sessionState_def)
qed

lemma overlaps_carAtPlayer:
  "player_x s = 0 \<Longrightarrow> player_y s = 0 \<Longrightarrow> player_z s = 0 \<Longrightarrow> overlaps s carAtPlayer"
  by (simp add: overlaps_def carAtPlayer_simps playerWidth_def playerHeight_def)

theorem fatal_collision_witness:
  "\<not> (isJumping (startedState\<lparr>lives := 1, obstacles := [carAtPlayer]\<rparr>) \<and>
      jumpHeight (startedState\<lparr>lives := 1, obstacles := [carAtPlayer]\<rparr>) > 2) \<and>
   firstOverlap (startedState\<lparr>lives := 1, obstacles := [carAtPlayer]\<rparr>)
     (obstacles (startedState\<lparr>lives := 1, obstacles := [carAtPlayer]\<rparr>)) = Some 0 \<and>
   lives (startedState\<lparr>lives := 1, obstacles := [carAtPlayer]\<rparr>) = 1 \<and>
   obstacles (checkCollisions (startedState\<lparr>lives := 1, obstacles := [carAtPlayer]\<rparr>)) = [] \<and>
   lives (checkCollisions (startedState\<lparr>lives := 1, obstacles := [carAtPlayer]\<rparr>)) = 0 \<and>
   sessionState (checkCollisions (startedState\<lparr>lives := 1, obstacles := [carAtPlayer]\<rparr>))
     = GameOver"
proof -
  have p: "overlaps (startedState\<lparr>lives := 1, obstacles := [carAtPlayer]\<rparr>) carAtPlayer"
    by (rule overlaps_carAtPlayer) (simp_all add: startedState_def)
  have f: "firstOverlap (startedState\<lparr>lives := 1, obstacles := [carAtPlayer]\<rparr>)
     (obstacles (startedState\<lparr>lives := 1, obstacles := [carAtPlayer]\<rparr>)) = Some 0"
    using p by simp
  have j: "\<not> (isJumping (startedState\<lparr>lives := 1, obstacles := [carAtPlayer]\<rparr>) \<and>
      jumpHeight (startedState\<lparr>lives := 1, obstacles := [carAtPlayer]\<rparr>) > 2)"
    by (simp add: startedState_def)
  have l: "lives (startedState\<lparr>lives := 1, obstacles := [carAtPlayer]\<rparr>) = 1"
    by simp
  from fatal_collision [OF j f l] j f l show ?thesis
    by simp
qed

subsection \<open>Spawning\<close>

lemma lane_index: "0 \<le> (r::real) \<Longrightarrow> r < 1 \<Longrightarrow> nat \<lfloor>r * 3\<rfloor> < 3"
proof -
  assume "0 \<le> r" "r < 1"
  then have "\<lfloor>r * 3\<rfloor> < 3" by (simp add: floor_less_iff)
  then show ?thesis by arith
qed

text \<open>
  C9, as the code has it. Every spawned obstacle gets the same box, width 3 and depth 5
  (\<open>userData.height\<close>), whatever its category. \<open>overtaken\<close> is set to false on a
  car and on a rocket and left unset, hence falsy, on a barrier. The obstacle is placed
  at the lateral offset of the chosen lane, at height 1 and at z = roadLength / 2, and
  appended to the live array.
\<close>

theorem spawned_obstacle:
  assumes "0 \<le> rLane" and "rLane < 1"
  shows "ud_width (newObstacle objId rLane rType) = 3 \<and>
         ud_height (newObstacle objId rLane rType) = 5 \<and>
         overtaken (newObstacle objId rLane rType)
           = (if isBarrier (newObstacle objId rLane rType) then None else Some False) \<and>
         \<not> truthy (overtaken (newObstacle objId rLane rType)) \<and>
         nat \<lfloor>rLane * 3\<rfloor> < length lanePositions \<and>
         pos_x (newObstacle objId rLane rType) = lanePositions ! nat \<lfloor>rLane * 3\<rfloor> \<and>
         pos_y (newObstacle objId rLane rType) = 1 \<and>
         pos_z (newObstacle objId rLane rType) = roadLength / 2 \<and>
         obstacles (spawnObstacle objId rLane rType s)
           = obstacles s @ [newObstacle objId rLane rType]"
  using lane_index [OF assms]
  by (simp add: newObstacle_def Let_def truthy_def spawnObstacle_def lanePositions_def)

theorem spawned_obstacle_witness:
  "(0::real) \<le> 0.9 \<and> (0.9::real) < 1 \<and>
   isRocket (newObstacle 7 0.9 0.9) \<and>
   ud_width (newObstacle 7 0.9 0.9) = 3 \<and> ud_height (newObstacle 7 0.9 0.9) = 5 \<and>
   overtaken (newObstacle 7 0.9 0.9) = Some False \<and>
   pos_x (newObstacle 7 0.9 0.9) = 4 \<and> pos_y (newObstacle 7 0.9 0.9) = 1 \<and>
   pos_z (newObstacle 7 0.9 0.9) = 1000"
  using spawned_obstacle [of "0.9" 7 "0.9" startedState]
  by (simp add: newObstacle_def Let_def lanePositions_def roadLength_def)

text \<open>
  Against C9 as stated: a car, a barrier and a rocket spawned in the same lane have the
  same extents, and the barrier's \<open>overtaken\<close> is not false but unset.
\<close>

theorem spawned_extents_counterexample:
  "isCar (newObstacle 1 0 0) \<and> isBarrier (newObstacle 2 0 0.8) \<and>
   isRocket (newObstacle 3 0 0.9) \<and>
   ud_width (newObstacle 1 0 0) = ud_width (newObstacle 2 0 0.8) \<and>
   ud_height (newObstacle 1 0 0) = ud_height (newObstacle 2 0 0.8) \<and>
   ud_width (newObstacle 2 0 0.8) = ud_width (newObstacle 3 0 0.9) \<and>
   ud_height (newObstacle 2 0 0.8) = ud_height (newObstacle 3 0 0.9) \<and>
   overtaken (newObstacle 2 0 0.8) \<noteq> Some False"
  by (simp add: newObstacle_def Let_def)

text \<open>
  Against C4 as stated: with \<open>minInterval = obstacleInterval - 0.5\<close>, which is 1.5,
  the specification's formula asks for more than 1.5 seconds at full speed, while the
  code spawns after 1 second.
\<close>

theorem spawn_gate_counterexample:
  "spawnDue (startedState\<lparr>speed := maxSpeed, elapsedTime := 1\<rparr>) \<and>
   \<not> specSpawnDue (obstacleInterval - 0.5)
       (startedState\<lparr>speed := maxSpeed, elapsedTime := 1\<rparr>)"
  by (simp add: spawnDue_def specSpawnDue_def specSpawnGap_def startedState_def
        maxSpeed_def obstacleInterval_def)

text \<open>
  C4, as the code has it. The gate is the specification's formula with
  \<open>minInterval = 0.5\<close>: the spawn check appends a new obstacle and restarts the spawn
  timer exactly when \<open>elapsedTime - lastObstacleTime\<close> exceeds
  \<open>obstacleInterval - (speed/maxSpeed) \<times> (obstacleInterval - 0.5)\<close>. That gap is
  linear in the speed, \<open>obstacleInterval\<close> at speed 0 and 0.5 at \<open>maxSpeed\<close>.
\<close>

theorem spawn_gate:
  "spawnDue s = specSpawnDue 0.5 s \<and>
   spawnCheck objId rLane rType s
     = (if elapsedTime s - lastObstacleTime s > specSpawnGap 0.5 (speed s)
        then s\<lparr>obstacles := obstacles s @ [newObstacle objId rLane rType],
               lastObstacleTime := elapsedTime s\<rparr>
        else s) \<and>
   specSpawnGap 0.5 0 = obstacleInterval \<and>
   specSpawnGap 0.5 maxSpeed = 0.5 \<and>
   specSpawnGap 0.5 v = obstacleInterval - v * ((obstacleInterval - 0.5) / maxSpeed)"
  by (simp add: spawnDue_def specSpawnDue_def specSpawnGap_def spawnCheck_def
        spawnObstacle_def maxSpeed_def)

subsection \<open>Scenery\<close>

lemma scenery_in_frame:
  "roadSegments (scrollScenery d s)
     = map (\<lambda>g. recycleSegment (advanceSegment d g)) (roadSegments s)"
  "roadStripes (scrollScenery d s)
     = map (\<lambda>g. recycleStripe (advanceSegment d g)) (roadStripes s)"
  "trees (scrollScenery d s) = map (\<lambda>t. recycleTree (advanceTree d t)) (trees s)"
  "buildings (scrollScenery d s)
     = map (\<lambda>b. recycleBuilding (advanceBuilding d b)) (buildings s)"
  by (simp_all add: scrollScenery_def comp_def)

text \<open>
  Against C1 as stated: a tree whose trunk is at z = -40 is recycled, and lands at
  z = 1985, not at -40 + roadLength = 1960.
\<close>

theorem recycle_tree_counterexample:
  "trunk_z \<lparr>trunk_z = -40, foliage_z = -40, tree_z = 50\<rparr> < cameraDistance - 20 \<and>
   trunk_z (recycleTree \<lparr>trunk_z = -40, foliage_z = -40, tree_z = 50\<rparr>) = 1985 \<and>
   trunk_z (recycleTree \<lparr>trunk_z = -40, foliage_z = -40, tree_z = 50\<rparr>)
     \<noteq> trunk_z \<lparr>trunk_z = -40, foliage_z = -40, tree_z = 50\<rparr> + roadLength"
  by (simp add: recycleTree_def cameraDistance_def roadLength_def Let_def)

text \<open>
  C1, as the code has it. A road segment or a stripe that is recycled gains exactly
  \<open>roadLength\<close>, in its logical z and in the z of its mesh. A tree or a building that
  is recycled is put at the fixed position \<open>roadLength + cameraDistance\<close>, whatever
  its z was; the foliage of a tree moves by the same distance as its trunk.
\<close>

theorem recycling:
  "(seg_z g < cameraDistance - segmentLength / 2 \<longrightarrow>
      seg_z (recycleSegment g) = seg_z g + roadLength \<and>
      seg_mesh_z (recycleSegment g) = seg_mesh_z g + roadLength) \<and>
   (seg_z g < cameraDistance - 20 \<longrightarrow>
      seg_z (recycleStripe g) = seg_z g + roadLength \<and>
      seg_mesh_z (recycleStripe g) = seg_mesh_z g + roadLength) \<and>
   (trunk_z t < cameraDistance - 20 \<longrightarrow>
      trunk_z (recycleTree t) = roadLength + cameraDistance \<and>
      foliage_z (recycleTree t) = foliage_z t + (roadLength + cameraDistance - trunk_z t)) \<and>
   (bmesh_z b < cameraDistance - 20 \<longrightarrow>
      bmesh_z (recycleBuilding b) = roadLength + cameraDistance)"
  by (simp add: recycleSegment_def recycleStripe_def recycleTree_def recycleBuilding_def
        Let_def)

theorem recycling_witness:
  "seg_z \<lparr>seg_z = -40, seg_mesh_z = -30\<rparr> < cameraDistance - segmentLength / 2 \<and>
   seg_z \<lparr>seg_z = -40, seg_mesh_z = -30\<rparr> < cameraDistance - 20 \<and>
   trunk_z \<lparr>trunk_z = -40, foliage_z = -40, tree_z = 50\<rparr> < cameraDistance - 20 \<and>
   bmesh_z \<lparr>bmesh_z = -36, building_z = 80\<rparr> < cameraDistance - 20 \<and>
   seg_z (recycleSegment \<lparr>seg_z = -40, seg_mesh_z = -30\<rparr>) = 1960 \<and>
   seg_mesh_z (recycleSegment \<lparr>seg_z = -40, seg_mesh_z = -30\<rparr>) = 1970 \<and>
   seg_z (recycleStripe \<lparr>seg_z = -40, seg_mesh_z = -30\<rparr>) = 1960 \<and>
   trunk_z (recycleTree \<lparr>trunk_z = -40, foliage_z = -40, tree_z = 50\<rparr>) = 1985 \<and>
   foliage_z (recycleTree \<lparr>trunk_z = -40, foliage_z = -40, tree_z = 50\<rparr>) = 1985 \<and>
   bmesh_z (recycleBuilding \<lparr>bmesh_z = -36, building_z = 80\<rparr>) = 1985"
  using recycling [of "\<lparr>seg_z = -40, seg_mesh_z = -30\<rparr>"
                      "\<lparr>trunk_z = -40, foliage_z = -40, tree_z = 50\<rparr>"
                      "\<lparr>bmesh_z = -36, building_z = 80\<rparr>"]
  by (simp add: cameraDistance_def segmentLength_def roadLength_def)

subsection \<open>Restart\<close>

lemma restartGame_resets:
  "obstacles (restartGame s) = [] \<and> lane (restartGame s) = 1 \<and>
   player_x (restartGame s) = 0 \<and> player_y (restartGame s) = 0 \<and>
   player_z (restartGame s) = 0 \<and>
   score (restartGame s) = 0 \<and> elapsedTime (restartGame s) = 0 \<and>
   lives (restartGame s) = 3 \<and> carsOvertaken (restartGame s) = 0 \<and>
   gameActive (restartGame s) \<and> isPaused (restartGame s) = isPaused s"
  by (simp add: restartGame_def startGame_def)

text \<open>
  C7 at the state a fatal collision leaves. \<open>handleCollision\<close> sets \<open>isPaused\<close>
  before it calls \<open>gameOver\<close>, and neither \<open>restartGame\<close> nor \<open>startGame\<close>
  clears it. After the restart the session is active with the pause flag set: it is
  Paused, not Running, and a frame update changes neither the speed nor the obstacles.
\<close>

theorem restart_after_crash:
  "sessionState (checkCollisions (startedState\<lparr>lives := 1, obstacles := [carAtPlayer]\<rparr>))
     = GameOver \<and>
   isPaused (restartGame
     (checkCollisions (startedState\<lparr>lives := 1, obstacles := [carAtPlayer]\<rparr>))) \<and>
   sessionState (restartGame
     (checkCollisions (startedState\<lparr>lives := 1, obstacles := [carAtPlayer]\<rparr>))) = Paused \<and>
   sessionState (restartGame
     (checkCollisions (startedState\<lparr>lives := 1, obstacles := [carAtPlayer]\<rparr>))) \<noteq> Running \<and>
   speed (updateGame 1 0 0 0 (restartGame
     (checkCollisions (startedState\<lparr>lives := 1, obstacles := [carAtPlayer]\<rparr>)))) = 0 \<and>
   obstacles (updateGame 3 0 0 0 (restartGame
     (checkCollisions (startedState\<lparr>lives := 1, obstacles := [carAtPlayer]\<rparr>)))) = []"
proof -
  have p: "overlaps (startedState\<lparr>lives := 1, obstacles := [carAtPlayer]\<rparr>) carAtPlayer"
    by (rule overlaps_carAtPlayer) (simp_all add: startedState_def)
  have c: "checkCollisions (startedState\<lparr>lives := 1, obstacles := [carAtPlayer]\<rparr>)
     = startedState\<lparr>lives := 0, obstacles := [], isPaused := True, gameActive := False,
         gameOverScreen := True\<rparr>"
    using p
    by (simp add: checkCollisions_def handleCollision_def gameOver_def Let_def
          startedState_def)
  show ?thesis
    unfolding c
    by (simp add: sessionState_def restartGame_def startGame_def updateGame_def Let_def
          startedState_def)
qed

subsection \<open>The jump arc\<close>

lemma jump_rise_or_fall:
  "isJumping s \<Longrightarrow> 0 < jumpHeight s + jumpVelocity s \<Longrightarrow>
   jumpHeight s + jumpVelocity s \<le> maxJumpHeight \<Longrightarrow>
     isJumping (updateJump s) \<and>
     jumpHeight (updateJump s) = jumpHeight s + jumpVelocity s \<and>
     jumpVelocity (updateJump s) = jumpVelocity s - jumpGravity"
  by (simp add: updateJump_def Let_def)

lemma jump_cap:
  "isJumping s \<Longrightarrow> jumpHeight s + jumpVelocity s > maxJumpHeight \<Longrightarrow>
     isJumping (updateJump s) \<and> jumpHeight (updateJump s) = maxJumpHeight \<and>
     jumpVelocity (updateJump s) = 0"
  by (simp add: updateJump_def Let_def maxJumpHeight_def)

lemma jump_land:
  "isJumping s \<Longrightarrow> jumpHeight s + jumpVelocity s \<le> 0 \<Longrightarrow>
     \<not> isJumping (updateJump s) \<and> jumpHeight (updateJump s) = 0 \<and>
     jumpVelocity (updateJump s) = 0"
  by (simp add: updateJump_def Let_def maxJumpHeight_def)

lemma startJump_fields:
  "\<not> isJumping s \<Longrightarrow>
     isJumping (startJump s) \<and> jumpHeight (startJump s) = 0 \<and>
     jumpVelocity (startJump s) = jumpInitialVelocity"
  by (simp add: startJump_def)

lemma pronic_bound: "k \<le> 31 \<Longrightarrow> real k * (real k + 1) \<le> 992"
proof -
  assume "k \<le> 31"
  then have "k * (k + 1) \<le> 31 * (31 + 1)"
    by (intro mult_le_mono) simp_all
  then have "real (k * (k + 1)) \<le> real (31 * (31 + 1))"
    by (simp only: of_nat_le_iff)
  then show ?thesis by (simp add: algebra_simps)
qed

lemma jump_closed_form:
  assumes "\<not> isJumping s"
  shows "k \<le> 32 \<Longrightarrow>
     isJumping ((updateJump ^^ Suc k) (startJump s)) \<and>
     jumpHeight ((updateJump ^^ Suc k) (startJump s)) = 5 - real k * (real k - 1) / 200 \<and>
     jumpVelocity ((updateJump ^^ Suc k) (startJump s)) = - real k / 100"
proof (induction k)
  case 0
  from startJump_fields [OF assms]
  have "isJumping (startJump s)" "jumpHeight (startJump s) + jumpVelocity (startJump s) > maxJumpHeight"
    by (simp_all add: jumpInitialVelocity_def maxJumpHeight_def)
  from jump_cap [OF this] show ?case
    by (simp add: maxJumpHeight_def)
next
  case (Suc k)
  define t where "t = (updateJump ^^ Suc k) (startJump s)"
  from Suc have k: "k \<le> 31" by simp
  with Suc.IH have ih: "isJumping t" "jumpHeight t = 5 - real k * (real k - 1) / 200"
    "jumpVelocity t = - real k / 100"
    by (simp_all add: t_def)
  have sum: "jumpHeight t + jumpVelocity t = 5 - real k * (real k + 1) / 200"
    by (simp add: ih field_simps)
  from pronic_bound [OF k] have pos: "0 < jumpHeight t + jumpVelocity t"
    unfolding sum by simp
  have le: "jumpHeight t + jumpVelocity t \<le> maxJumpHeight"
    unfolding sum by (simp add: maxJumpHeight_def)
  have h': "5 - real k * (real k + 1) / 200 = 5 - real (Suc k) * (real (Suc k) - 1) / 200"
    by (simp add: algebra_simps)
  have v': "- real k / 100 - jumpGravity = - real (Suc k) / 100"
    by (simp add: jumpGravity_def field_simps)
  note step = jump_rise_or_fall [OF ih(1) pos le]
  from step have "isJumping (updateJump t)"
    by blast
  moreover from step have "jumpHeight (updateJump t) = jumpHeight t + jumpVelocity t"
    by blast
  with sum h' have "jumpHeight (updateJump t) = 5 - real (Suc k) * (real (Suc k) - 1) / 200"
    by (simp only:)
  moreover from step have "jumpVelocity (updateJump t) = jumpVelocity t - jumpGravity"
    by blast
  with ih(3) v' have "jumpVelocity (updateJump t) = - real (Suc k) / 100"
    by (simp only:)
  moreover have "(updateJump ^^ Suc (Suc k)) (startJump s) = updateJump t"
    by (simp add: t_def)
  ultimately show ?case
    by simp
qed

text \<open>
  C8. A jump key pressed in a running session while not jumping starts the jump with
  offset 0 and the initial upward velocity. Under the jump stage of the frame update
  (offset += velocity, then velocity -= gravity, the offset capped at
  \<open>maxJumpHeight\<close> with the velocity zeroed there) the vehicle is in flight, its
  offset above 0 and at most \<open>maxJumpHeight\<close>, for frames 1 to 33, and at frame 34
  the offset is exactly 0, the velocity is 0 and the jump flag is cleared.
\<close>

theorem jump_arc_lands:
  assumes "gameActive s" and "\<not> isPaused s" and "\<not> isJumping s"
  shows "isJumping (onKeyDown ''j'' s) \<and> jumpHeight (onKeyDown ''j'' s) = 0 \<and>
     jumpVelocity (onKeyDown ''j'' s) = jumpInitialVelocity \<and>
     (\<forall>n. 0 < n \<and> n < 34 \<longrightarrow>
        isJumping ((updateJump ^^ n) (onKeyDown ''j'' s)) \<and>
        0 < jumpHeight ((updateJump ^^ n) (onKeyDown ''j'' s)) \<and>
        jumpHeight ((updateJump ^^ n) (onKeyDown ''j'' s)) \<le> maxJumpHeight) \<and>
     \<not> isJumping ((updateJump ^^ 34) (onKeyDown ''j'' s)) \<and>
     jumpHeight ((updateJump ^^ 34) (onKeyDown ''j'' s)) = 0 \<and>
     jumpVelocity ((updateJump ^^ 34) (onKeyDown ''j'' s)) = 0"
proof -
  from assms(1,2) have key: "onKeyDown ''j'' s = startJump s"
    by (simp add: onKeyDown_def)
  have flight: "isJumping ((updateJump ^^ n) (startJump s)) \<and>
        0 < jumpHeight ((updateJump ^^ n) (startJump s)) \<and>
        jumpHeight ((updateJump ^^ n) (startJump s)) \<le> maxJumpHeight"
    if n: "0 < n" "n < 34" for n
  proof -
    from n obtain k where k: "n = Suc k" "k \<le> 32"
      by (cases n) simp_all
    have "real k * (real k - 1) \<le> 992"
    proof (cases k)
      case 0
      then show ?thesis by simp
    next
      case (Suc j)
      with k(2) have "j \<le> 31" by simp
      from pronic_bound [OF this] Suc show ?thesis
        by (simp add: algebra_simps)
    qed
    moreover have "0 \<le> real k * (real k - 1)"
      by (cases k) simp_all
    ultimately show ?thesis
      using jump_closed_form [OF assms(3) k(2)]
      by (simp add: k(1) maxJumpHeight_def del: funpow.simps)
  qed
  define t where "t = (updateJump ^^ Suc 32) (startJump s)"
  from jump_closed_form [OF assms(3), of 32]
  have t: "isJumping t" "jumpHeight t + jumpVelocity t \<le> 0"
    by (simp_all add: t_def del: funpow.simps)
  have "(34::nat) = Suc (Suc 32)"
    by simp
  then have "(updateJump ^^ 34) (startJump s) = updateJump t"
    by (simp only: t_def funpow.simps comp_apply)
  with jump_land [OF t]
  have land: "\<not> isJumping ((updateJump ^^ 34) (startJump s))"
    "jumpHeight ((updateJump ^^ 34) (startJump s)) = 0"
    "jumpVelocity ((updateJump ^^ 34) (startJump s)) = 0"
    by simp_all
  from flight land startJump_fields [OF assms(3)] show ?thesis
    unfolding key by blast
qed


theorem jump_arc_lands_witness:
  "gameActive startedState \<and> \<not> isPaused startedState \<and> \<not> isJumping startedState \<and>
   (0::nat) < 33 \<and> (33::nat) < 34 \<and>
   isJumping ((updateJump ^^ 33) (onKeyDown ''j'' startedState)) \<and>
   0 < jumpHeight ((updateJump ^^ 33) (onKeyDown ''j'' startedState)) \<and>
   \<not> isJumping ((updateJump ^^ 34) (onKeyDown ''j'' startedState)) \<and>
   jumpHeight ((updateJump ^^ 34) (onKeyDown ''j'' startedState)) = 0 \<and>
   jumpVelocity ((updateJump ^^ 34) (onKeyDown ''j'' startedState)) = 0"
proof -
  have a: "gameActive startedState" "\<not> isPaused startedState" "\<not> isJumping startedState"
    by (simp_all add: startedState_def)
  note r = jump_arc_lands [OF a]
  from r have "\<forall>n. 0 < n \<and> n < 34 \<longrightarrow>
        isJumping ((updateJump ^^ n) (onKeyDown ''j'' startedState)) \<and>
        0 < jumpHeight ((updateJump ^^ n) (onKeyDown ''j'' startedState)) \<and>
        jumpHeight ((updateJump ^^ n) (onKeyDown ''j'' startedState)) \<le> maxJumpHeight"
    by blast
  from this [rule_format, of 33]
  have "isJumping ((updateJump ^^ 33) (onKeyDown ''j'' startedState))"
    "0 < jumpHeight ((updateJump ^^ 33) (onKeyDown ''j'' startedState))"
    by simp_all
  with r a show ?thesis
    by simp
qed

text \<open>
  The jump stage is what an unpaused frame does to the jump variables; a paused frame
  leaves them alone.
\<close>

lemma jump_fields_updateJump:
  "isJumping (updateJump (s\<lparr>elapsedTime := e, speed := v\<rparr>)) = isJumping (updateJump s)"
  "jumpHeight (updateJump (s\<lparr>elapsedTime := e, speed := v\<rparr>)) = jumpHeight (updateJump s)"
  "jumpVelocity (updateJump (s\<lparr>elapsedTime := e, speed := v\<rparr>)) = jumpVelocity (updateJump s)"
  by (simp_all add: updateJump_def Let_def)

lemma jump_fields_later:
  "isJumping (steer s) = isJumping s" "jumpHeight (steer s) = jumpHeight s"
  "jumpVelocity (steer s) = jumpVelocity s"
  "isJumping (checkCollisions s) = isJumping s" "jumpHeight (checkCollisions s) = jumpHeight s"
  "jumpVelocity (checkCollisions s) = jumpVelocity s"
  "isJumping (updateScore dt s) = isJumping s" "jumpHeight (updateScore dt s) = jumpHeight s"
  "jumpVelocity (updateScore dt s) = jumpVelocity s"
  "isJumping (spawnCheck i a b s) = isJumping s" "jumpHeight (spawnCheck i a b s) = jumpHeight s"
  "jumpVelocity (spawnCheck i a b s) = jumpVelocity s"
  "isJumping (scrollScenery d s) = isJumping s" "jumpHeight (scrollScenery d s) = jumpHeight s"
  "jumpVelocity (scrollScenery d s) = jumpVelocity s"
  by (simp_all add: steer_def checkCollisions_def handleCollision_def gameOver_def Let_def
        updateScore_def spawnCheck_def spawnObstacle_def scrollScenery_def
        split: option.splits prod.splits)

lemma jump_in_frame:
  "\<not> isPaused s \<Longrightarrow>
     isJumping (updateGame dt i a b s) = isJumping (updateJump s) \<and>
     jumpHeight (updateGame dt i a b s) = jumpHeight (updateJump s) \<and>
     jumpVelocity (updateGame dt i a b s) = jumpVelocity (updateJump s)"
  by (simp add: updateGame_def Let_def jump_fields_later updateSpeed_def
        jump_fields_updateJump)

subsection \<open>Overtake credits\<close>

lemma overtakeLoop_eq:
  "overtakeLoop pz obs sc n =
     (map (\<lambda>ob. if overtakeDue pz ob then ob\<lparr>overtaken := Some True\<rparr> else ob) obs,
      sc + 100 * real (length (filter (overtakeDue pz) obs)),
      n + length (filter (overtakeDue pz) obs))"
  by (induction obs arbitrary: sc n) (simp_all add: algebra_simps)

lemma updateScore_eq:
  "updateScore dt s =
     s\<lparr>score := score s + dt * speed s / 10 + 100 * real (length (creditsNow s)),
       carsOvertaken := carsOvertaken s + length (creditsNow s),
       obstacles := map (\<lambda>ob. if overtakeDue (player_z s) ob
                                 then ob\<lparr>overtaken := Some True\<rparr> else ob) (obstacles s)\<rparr>"
  by (simp add: updateScore_def overtakeLoop_eq creditsNow_def)

lemma moveObstacles_eq:
  "moveObstacles d obs =
     map (\<lambda>ob. ob\<lparr>pos_z := pos_z ob - d\<rparr>) (filter (\<lambda>ob. \<not> pos_z ob - d < cameraDistance) obs)"
  by (induction obs) (simp_all add: Let_def)

lemma ids_moveObstacles:
  "map obj_id (moveObstacles d obs) = map obj_id (filter (\<lambda>ob. \<not> pos_z ob - d < cameraDistance) obs)"
  by (simp add: moveObstacles_eq comp_def)

lemma uncredited_moveObstacles: "uncredited (moveObstacles d obs) \<subseteq> uncredited obs"
  by (auto simp: uncredited_def moveObstacles_eq)

lemma uncredited_mono: "set obs' \<subseteq> set obs \<Longrightarrow> uncredited obs' \<subseteq> uncredited obs"
  by (auto simp: uncredited_def)

lemma uncredited_ids: "uncredited obs \<subseteq> set (map obj_id obs)"
  by (auto simp: uncredited_def)

lemma uncredited_append: "uncredited (obs @ [ob]) \<subseteq> uncredited obs \<union> {obj_id ob}"
  by (auto simp: uncredited_def)

lemma uncredited_flagged:
  assumes "distinct (map obj_id obs)"
  shows "uncredited (map (\<lambda>ob. if P ob then ob\<lparr>overtaken := Some True\<rparr> else ob) obs)
           \<subseteq> uncredited obs - set (map obj_id (filter P obs))"
proof -
  from assms have inj: "inj_on obj_id (set obs)"
    by (simp add: distinct_map)
  show ?thesis
  proof
    fix i
    assume "i \<in> uncredited (map (\<lambda>ob. if P ob then ob\<lparr>overtaken := Some True\<rparr> else ob) obs)"
    then obtain ob where ob: "ob \<in> set obs" "\<not> P ob" "\<not> truthy (overtaken ob)" "i = obj_id ob"
      by (auto simp: uncredited_def truthy_def split: if_splits)
    then have "i \<in> uncredited obs"
      by (auto simp: uncredited_def)
    moreover have "i \<notin> set (map obj_id (filter P obs))"
    proof
      assume "i \<in> set (map obj_id (filter P obs))"
      then obtain ob' where ob': "ob' \<in> set obs" "P ob'" "obj_id ob' = i"
        by auto
      with ob inj have "ob' = ob"
        by (auto dest: inj_onD)
      with ob ob' show False by simp
    qed
    ultimately show "i \<in> uncredited obs - set (map obj_id (filter P obs))"
      by simp
  qed
qed

lemma credits_uncredited:
  "set (map obj_id (creditsNow s)) \<subseteq> uncredited (obstacles s)"
  by (auto simp: creditsNow_def uncredited_def overtakeDue_def)

lemma obstacles_handleCollision:
  "obstacles (handleCollision i s) = take i (obstacles s) @ drop (Suc i) (obstacles s)"
  by (simp add: handleCollision_def gameOver_def Let_def)

lemma distinct_remove_nth:
  "distinct (map f xs) \<Longrightarrow> distinct (map f (take i xs @ drop (Suc i) xs))"
proof -
  assume d: "distinct (map f xs)"
  have "map f (take i xs @ drop (Suc i) xs) = take i (map f xs) @ drop (Suc i) (map f xs)"
    by (simp add: take_map drop_map)
  moreover from d have "set (take i (map f xs)) \<inter> set (drop (Suc i) (map f xs)) = {}"
    by (rule set_take_disj_set_drop_if_distinct) simp
  ultimately show ?thesis
    using d by (simp add: distinct_take distinct_drop del: take_map drop_map)
qed

lemma set_remove_nth: "set (take i xs @ drop (Suc i) xs) \<subseteq> set xs"
  using set_take_subset [of i xs] set_drop_subset [of "Suc i" xs] by auto

lemma obstacles_checkCollisions_cases:
  "obstacles (checkCollisions s) = obstacles s \<or>
   (\<exists>i. obstacles (checkCollisions s) = take i (obstacles s) @ drop (Suc i) (obstacles s))"
  by (auto simp add: checkCollisions_def obstacles_handleCollision split: option.splits)

lemma obstacles_checkCollisions:
  "set (obstacles (checkCollisions s)) \<subseteq> set (obstacles s) \<and>
   (distinct (map obj_id (obstacles s)) \<longrightarrow>
      distinct (map obj_id (obstacles (checkCollisions s))))"
proof -
  from obstacles_checkCollisions_cases [of s] show ?thesis
  proof
    assume "obstacles (checkCollisions s) = obstacles s"
    then show ?thesis by simp
  next
    assume "\<exists>i. obstacles (checkCollisions s) = take i (obstacles s) @ drop (Suc i) (obstacles s)"
    then obtain i where "obstacles (checkCollisions s) = take i (obstacles s) @ drop (Suc i) (obstacles s)"
      by blast
    with set_remove_nth [of i "obstacles s"] distinct_remove_nth [of obj_id "obstacles s" i]
    show ?thesis by (simp only:) blast
  qed
qed

lemma obstacles_early:
  "obstacles (steer s) = obstacles s" "obstacles (updateJump s) = obstacles s"
  "obstacles (updateSpeed s) = obstacles s"
  by (simp_all add: steer_def updateJump_def updateSpeed_def Let_def)

lemma obstacles_scoringState:
  "set (obstacles (scoringState dt s)) \<subseteq> set (obstacles s) \<and>
   (distinct (map obj_id (obstacles s)) \<longrightarrow> distinct (map obj_id (obstacles (scoringState dt s))))"
  using obstacles_checkCollisions [of "steer (updateJump (updateSpeed (s\<lparr>elapsedTime := elapsedTime s + dt\<rparr>)))"]
  by (simp add: scoringState_def obstacles_early)


lemma obj_id_newObstacle: "obj_id (newObstacle i a b) = i"
  by (simp add: newObstacle_def Let_def)

lemma updateGame_running:
  assumes "\<not> isPaused s"
  shows "\<exists>new. (new = [] \<or> new = [newObstacle i a b]) \<and>
     obstacles (updateGame dt i a b s)
       = moveObstacles (speed (scoringState dt s) * dt)
           (map (\<lambda>ob. if overtakeDue (player_z (scoringState dt s)) ob
                       then ob\<lparr>overtaken := Some True\<rparr> else ob)
              (obstacles (scoringState dt s))) @ new"
proof -
  define t where "t = scoringState dt s"
  define u where "u = (updateScore dt t)\<lparr>obstacles :=
      moveObstacles (speed (updateScore dt t) * dt) (obstacles (updateScore dt t))\<rparr>"
  from assms have g: "updateGame dt i a b s
      = scrollScenery (speed (updateScore dt t) * dt) (spawnCheck i a b u)"
    by (simp add: updateGame_def Let_def t_def u_def scoringState_def)
  have o: "obstacles u = moveObstacles (speed t * dt)
      (map (\<lambda>ob. if overtakeDue (player_z t) ob then ob\<lparr>overtaken := Some True\<rparr> else ob)
         (obstacles t))"
    by (simp add: u_def updateScore_eq)
  have "obstacles (spawnCheck i a b u) = obstacles u @ [] \<or>
        obstacles (spawnCheck i a b u) = obstacles u @ [newObstacle i a b]"
    by (simp add: spawnCheck_def spawnObstacle_def)
  then show ?thesis
    unfolding g o t_def by (auto simp: scrollScenery_def)
qed

lemma frame_inv:
  assumes d: "distinct (map obj_id (obstacles s))"
    and i: "i \<notin> set (map obj_id (obstacles s))"
  shows "distinct (map obj_id (obstacles (animate dt i a b s))) \<and>
    set (map obj_id (obstacles (animate dt i a b s))) \<subseteq> set (map obj_id (obstacles s)) \<union> {i} \<and>
    uncredited (obstacles (animate dt i a b s))
      \<subseteq> (uncredited (obstacles s) - set (credited (Frame dt i a b) s)) \<union> {i} \<and>
    set (credited (Frame dt i a b) s) \<subseteq> uncredited (obstacles s) \<and>
    distinct (credited (Frame dt i a b) s)"
proof (cases "gameActive s \<and> \<not> isPaused s")
  case False
  then have "obstacles (animate dt i a b s) = obstacles s" "credited (Frame dt i a b) s = []"
    by (auto simp: animate_def updateGame_def Let_def)
  with d show ?thesis by auto
next
  case True
  define t where "t = scoringState dt s"
  define flagged where "flagged = map (\<lambda>ob. if overtakeDue (player_z t) ob
                       then ob\<lparr>overtaken := Some True\<rparr> else ob) (obstacles t)"
  define moved where "moved = moveObstacles (speed t * dt) flagged"
  from True updateGame_running [of s i a b dt]
  obtain new where new: "new = [] \<or> new = [newObstacle i a b]"
    and fin: "obstacles (animate dt i a b s) = moved @ new"
    by (auto simp: animate_def t_def flagged_def moved_def)
  from True have cr: "credited (Frame dt i a b) s = map obj_id (creditsNow t)"
    by (simp add: t_def)
  from obstacles_scoringState [of dt s] d
  have ts: "set (obstacles t) \<subseteq> set (obstacles s)" and td: "distinct (map obj_id (obstacles t))"
    by (simp_all add: t_def)
  have fid: "map obj_id flagged = map obj_id (obstacles t)"
    by (simp add: flagged_def comp_def if_distrib cong: if_cong)
  have mid: "map obj_id moved = map obj_id (filter (\<lambda>ob. \<not> pos_z ob - speed t * dt < cameraDistance) flagged)"
    by (simp add: moved_def ids_moveObstacles)
  have md: "distinct (map obj_id moved)"
    unfolding mid using td fid by (metis distinct_map_filter)
  have ms: "set (map obj_id moved) \<subseteq> set (map obj_id (obstacles s))"
  proof -
    have "set (map obj_id moved) \<subseteq> set (map obj_id flagged)"
      unfolding mid by auto
    also have "\<dots> = set (map obj_id (obstacles t))"
      by (simp only: fid)
    also from ts have "\<dots> \<subseteq> set (map obj_id (obstacles s))"
      by auto
    finally show ?thesis .
  qed
  have mu: "uncredited moved \<subseteq> uncredited (obstacles s) - set (map obj_id (creditsNow t))"
  proof -
    have "uncredited moved \<subseteq> uncredited flagged"
      unfolding moved_def by (rule uncredited_moveObstacles)
    also from uncredited_flagged [OF td, of "overtakeDue (player_z t)"]
    have "\<dots> \<subseteq> uncredited (obstacles t) - set (map obj_id (creditsNow t))"
      by (simp add: flagged_def creditsNow_def)
    also from uncredited_mono [OF ts]
    have "\<dots> \<subseteq> uncredited (obstacles s) - set (map obj_id (creditsNow t))"
      by auto
    finally show ?thesis .
  qed
  have c1: "set (map obj_id (creditsNow t)) \<subseteq> uncredited (obstacles s)"
    using credits_uncredited [of t] uncredited_mono [OF ts] by auto
  have c2: "distinct (map obj_id (creditsNow t))"
    unfolding creditsNow_def using td by (rule distinct_map_filter)
  from new show ?thesis
  proof
    assume "new = []"
    with fin md ms mu c1 c2 show ?thesis
      unfolding cr by auto
  next
    assume n: "new = [newObstacle i a b]"
    from i ms have "i \<notin> set (map obj_id moved)"
      by auto
    with n fin md have "distinct (map obj_id (obstacles (animate dt i a b s)))"
      by (simp add: obj_id_newObstacle)
    moreover from n fin ms
    have "set (map obj_id (obstacles (animate dt i a b s))) \<subseteq> set (map obj_id (obstacles s)) \<union> {i}"
      by (auto simp: obj_id_newObstacle)
    moreover from n fin mu uncredited_append [of moved "newObstacle i a b"]
    have "uncredited (obstacles (animate dt i a b s))
      \<subseteq> (uncredited (obstacles s) - set (map obj_id (creditsNow t))) \<union> {i}"
      by (auto simp: obj_id_newObstacle)
    ultimately show ?thesis
      using c1 c2 unfolding cr by blast
  qed
qed


lemma obstacles_onKeyDown: "obstacles (onKeyDown key s) = obstacles s"
  by (simp add: onKeyDown_def startJump_def)

lemma allocated_Cons: "allocated (e # es) = allocated [e] @ allocated es"
  by (cases e) simp_all

lemma step_inv:
  assumes "distinct (map obj_id (obstacles s) @ allocated [e])"
  shows "distinct (map obj_id (obstacles (step e s))) \<and>
    set (map obj_id (obstacles (step e s)))
      \<subseteq> set (map obj_id (obstacles s)) \<union> set (allocated [e]) \<and>
    uncredited (obstacles (step e s))
      \<subseteq> (uncredited (obstacles s) - set (credited e s)) \<union> set (allocated [e]) \<and>
    set (credited e s) \<subseteq> uncredited (obstacles s) \<and>
    distinct (credited e s)"
proof (cases e)
  case (Frame dt i a b)
  with assms frame_inv [of s i dt a b] show ?thesis
    by simp
next
  case (Key key)
  with assms show ?thesis
    by (simp add: obstacles_onKeyDown)
next
  case Start
  with assms show ?thesis
    by (simp add: startGame_def)
next
  case Restart
  with assms show ?thesis
    by (simp add: restartGame_def startGame_def uncredited_def)
qed

lemma creditLog_inv:
  "distinct (map obj_id (obstacles s) @ allocated evs) \<Longrightarrow>
     distinct (creditLog evs s) \<and>
     set (creditLog evs s) \<subseteq> uncredited (obstacles s) \<union> set (allocated evs)"
proof (induction evs arbitrary: s)
  case Nil
  then show ?case by simp
next
  case (Cons e es)
  from Cons.prems have all: "distinct (map obj_id (obstacles s) @ allocated [e] @ allocated es)"
    by (simp only: allocated_Cons [of e es])
  then have one: "distinct (map obj_id (obstacles s) @ allocated [e])"
    by auto
  note inv = step_inv [OF one]
  from inv have live: "set (map obj_id (obstacles (step e s)))
      \<subseteq> set (map obj_id (obstacles s)) \<union> set (allocated [e])"
    by blast
  from inv have dl: "distinct (map obj_id (obstacles (step e s)))"
    by blast
  from all live dl have "distinct (map obj_id (obstacles (step e s)) @ allocated es)"
    by auto
  from Cons.IH [OF this]
  have ih: "distinct (creditLog es (step e s))"
    "set (creditLog es (step e s)) \<subseteq> uncredited (obstacles (step e s)) \<union> set (allocated es)"
    by simp_all
  from inv have un: "uncredited (obstacles (step e s))
      \<subseteq> (uncredited (obstacles s) - set (credited e s)) \<union> set (allocated [e])"
    by blast
  from inv have cr: "set (credited e s) \<subseteq> uncredited (obstacles s)" "distinct (credited e s)"
    by blast+
  from cr(1) uncredited_ids [of "obstacles s"]
  have crl: "set (credited e s) \<subseteq> set (map obj_id (obstacles s))"
    by blast
  have disj: "set (credited e s) \<inter> set (creditLog es (step e s)) = {}"
  proof -
    from all crl have "set (credited e s) \<inter> (set (allocated [e]) \<union> set (allocated es)) = {}"
      by auto
    with ih(2) un show ?thesis
      by blast
  qed
  have sub: "set (creditLog (e # es) s) \<subseteq> uncredited (obstacles s) \<union> set (allocated (e # es))"
    using cr(1) ih(2) un by (auto simp: allocated_Cons [of e es])
  from cr(2) ih(1) disj sub show ?case
    by simp
qed

lemma spawned_barrier_flags:
  "isBarrier (newObstacle i a b) \<Longrightarrow>
     \<not> isCar (newObstacle i a b) \<and> \<not> isRocket (newObstacle i a b)"
  by (simp add: newObstacle_def Let_def split: if_splits)

lemma counters_early:
  "carsOvertaken (updateSpeed s) = carsOvertaken s" "score (updateSpeed s) = score s"
  "carsOvertaken (updateJump s) = carsOvertaken s" "score (updateJump s) = score s"
  "carsOvertaken (steer s) = carsOvertaken s" "score (steer s) = score s"
  by (simp_all add: steer_def updateJump_def updateSpeed_def Let_def)

lemma counters_handleCollision:
  "carsOvertaken (handleCollision i s) = carsOvertaken s" "score (handleCollision i s) = score s"
  by (simp_all add: handleCollision_def gameOver_def Let_def)

lemma counters_checkCollisions:
  "carsOvertaken (checkCollisions s) = carsOvertaken s" "score (checkCollisions s) = score s"
  by (simp_all add: checkCollisions_def counters_handleCollision split: option.splits)

lemma counters_scoringState:
  "carsOvertaken (scoringState dt s) = carsOvertaken s" "score (scoringState dt s) = score s"
  by (simp_all add: scoringState_def counters_checkCollisions counters_early)

lemma counters_spawnCheck:
  "carsOvertaken (spawnCheck i a b s) = carsOvertaken s" "score (spawnCheck i a b s) = score s"
  by (simp_all add: spawnCheck_def spawnObstacle_def)

lemma frame_counters:
  "carsOvertaken (animate dt i a b s) = carsOvertaken s + length (credited (Frame dt i a b) s) \<and>
   score (animate dt i a b s)
     = score s + (if gameActive s \<and> \<not> isPaused s
                  then dt * speed (scoringState dt s) / 10 else 0)
       + 100 * real (length (credited (Frame dt i a b) s))"
proof (cases "gameActive s \<and> \<not> isPaused s")
  case False
  then have "animate dt i a b s = s \<or> animate dt i a b s = s\<lparr>elapsedTime := elapsedTime s + dt\<rparr>"
    by (cases "gameActive s") (simp_all add: animate_def updateGame_def Let_def)
  with False show ?thesis
    by auto
next
  case True
  define t where "t = scoringState dt s"
  from True have "animate dt i a b s = scrollScenery (speed (updateScore dt t) * dt)
      (spawnCheck i a b ((updateScore dt t)\<lparr>obstacles :=
         moveObstacles (speed (updateScore dt t) * dt) (obstacles (updateScore dt t))\<rparr>))"
    by (simp add: animate_def updateGame_def Let_def t_def scoringState_def)
  then have "carsOvertaken (animate dt i a b s) = carsOvertaken (updateScore dt t)"
    "score (animate dt i a b s) = score (updateScore dt t)"
    by (simp_all add: scrollScenery_def counters_spawnCheck)
  with True show ?thesis
    by (simp add: updateScore_eq t_def counters_scoringState)
qed

text \<open>
  C6. Take any run of the game from a state whose live obstacles are distinct objects,
  every allocation returning a new object. No object is credited twice: the log of
  credits has no duplicates. A credit is what sets the flag: \<open>updateScore\<close> credits
  an obstacle only if it is a car or a rocket, its \<open>overtaken\<close> flag is not set and
  its z is below the player's; it sets the flag on exactly the credited obstacles and
  adds 100 to the score and 1 to the overtaken count for each of them. A frame adds to
  the overtaken count and, beside the distance score, to the score exactly its credits.
\<close>

theorem overtake_credited_once:
  assumes "distinct (map obj_id (obstacles s) @ allocated evs)"
  shows "distinct (creditLog evs s) \<and>
     (\<forall>ob \<in> set (creditsNow t).
        (isCar ob \<or> isRocket ob) \<and> \<not> truthy (overtaken ob) \<and> pos_z ob < player_z t) \<and>
     score (updateScore deltaTime t)
       = score t + deltaTime * speed t / 10 + 100 * real (length (creditsNow t)) \<and>
     carsOvertaken (updateScore deltaTime t) = carsOvertaken t + length (creditsNow t) \<and>
     obstacles (updateScore deltaTime t)
       = map (\<lambda>ob. if ob \<in> set (creditsNow t) then ob\<lparr>overtaken := Some True\<rparr> else ob)
           (obstacles t) \<and>
     carsOvertaken (step (Frame deltaTime objId rLane rType) t)
       = carsOvertaken t + length (credited (Frame deltaTime objId rLane rType) t) \<and>
     score (step (Frame deltaTime objId rLane rType) t)
       = score t + (if gameActive t \<and> \<not> isPaused t
                    then deltaTime * speed (scoringState deltaTime t) / 10 else 0)
         + 100 * real (length (credited (Frame deltaTime objId rLane rType) t))"
proof -
  from creditLog_inv [OF assms] have "distinct (creditLog evs s)"
    by simp
  moreover have "\<forall>ob \<in> set (creditsNow t).
        (isCar ob \<or> isRocket ob) \<and> \<not> truthy (overtaken ob) \<and> pos_z ob < player_z t"
    by (simp add: creditsNow_def overtakeDue_def)
  moreover have "obstacles (updateScore deltaTime t)
       = map (\<lambda>ob. if ob \<in> set (creditsNow t) then ob\<lparr>overtaken := Some True\<rparr> else ob)
           (obstacles t)"
    by (simp add: updateScore_eq creditsNow_def)
  moreover have "score (updateScore deltaTime t)
       = score t + deltaTime * speed t / 10 + 100 * real (length (creditsNow t))"
    "carsOvertaken (updateScore deltaTime t) = carsOvertaken t + length (creditsNow t)"
    by (simp_all add: updateScore_eq)
  moreover from frame_counters [of deltaTime objId rLane rType t]
  have "carsOvertaken (step (Frame deltaTime objId rLane rType) t)
       = carsOvertaken t + length (credited (Frame deltaTime objId rLane rType) t)"
    "score (step (Frame deltaTime objId rLane rType) t)
       = score t + (if gameActive t \<and> \<not> isPaused t
                    then deltaTime * speed (scoringState deltaTime t) / 10 else 0)
         + 100 * real (length (credited (Frame deltaTime objId rLane rType) t))"
    by (simp_all only: step.simps)
  ultimately show ?thesis
    by blast
qed

lemma passedCar_simps:
  "obj_id passedCar = 0" "pos_x passedCar = 4" "pos_y passedCar = 1" "pos_z passedCar = -1"
  "ud_width passedCar = 3" "ud_height passedCar = 5"
  "isCar passedCar" "overtaken passedCar = Some False"
  by (simp_all add: passedCar_def newObstacle_def lanePositions_def Let_def)

lemma w_scoring:
  "scoringState 0.016 (startedState\<lparr>obstacles := [passedCar]\<rparr>)
     = startedState\<lparr>obstacles := [passedCar], elapsedTime := 0.016, speed := 1.9\<rparr>"
  by (simp add: scoringState_def startedState_def updateSpeed_def updateJump_def steer_def
        checkCollisions_def overlaps_def passedCar_simps lanePositions_def playerWidth_def
        playerHeight_def maxSpeed_def acceleration_def deceleration_def Let_def)


lemma w_frame1:
  "animate 0.016 1 0 0 (startedState\<lparr>obstacles := [passedCar]\<rparr>)
     = startedState\<lparr>obstacles := [passedCar\<lparr>overtaken := Some True, pos_z := -1.0304\<rparr>],
         elapsedTime := 0.016, speed := 1.9, score := 100.00304, carsOvertaken := 1\<rparr>"
proof -
  have r: "gameActive (startedState\<lparr>obstacles := [passedCar]\<rparr>)"
    "\<not> isPaused (startedState\<lparr>obstacles := [passedCar]\<rparr>)"
    by (simp_all add: startedState_def)
  have "animate 0.016 1 0 0 (startedState\<lparr>obstacles := [passedCar]\<rparr>)
     = (let s5 = updateScore 0.016 (scoringState 0.016 (startedState\<lparr>obstacles := [passedCar]\<rparr>));
            moveDistance = speed s5 * 0.016
        in scrollScenery moveDistance (spawnCheck 1 0 0
             (s5\<lparr>obstacles := moveObstacles moveDistance (obstacles s5)\<rparr>)))"
    using r by (simp add: animate_def updateGame_def scoringState_def Let_def)
  also have "\<dots> = startedState\<lparr>obstacles := [passedCar\<lparr>overtaken := Some True, pos_z := -1.0304\<rparr>],
         elapsedTime := 0.016, speed := 1.9, score := 100.00304, carsOvertaken := 1\<rparr>"
    unfolding w_scoring
    by (simp add: startedState_def updateScore_def overtakeDue_def truthy_def passedCar_simps
          cameraDistance_def spawnCheck_def spawnDue_def obstacleInterval_def maxSpeed_def
          scrollScenery_def Let_def)
  finally show ?thesis .
qed


lemma no_credit_when_flagged:
  assumes "\<forall>ob \<in> set (obstacles s). truthy (overtaken ob)"
  shows "creditsNow (scoringState dt s) = []"
proof -
  from obstacles_scoringState [of dt s] assms
  have "\<forall>ob \<in> set (obstacles (scoringState dt s)). truthy (overtaken ob)"
    by blast
  then show ?thesis
    by (simp add: creditsNow_def overtakeDue_def)
qed

theorem overtake_credited_once_witness:
  "distinct (map obj_id (obstacles (startedState\<lparr>obstacles := [passedCar]\<rparr>))
             @ allocated [Frame 0.016 1 0 0, Frame 0.016 2 0 0]) \<and>
   creditLog [Frame 0.016 1 0 0, Frame 0.016 2 0 0] (startedState\<lparr>obstacles := [passedCar]\<rparr>)
     = [0] \<and>
   distinct (creditLog [Frame 0.016 1 0 0, Frame 0.016 2 0 0]
               (startedState\<lparr>obstacles := [passedCar]\<rparr>)) \<and>
   carsOvertaken (run [Frame 0.016 1 0 0, Frame 0.016 2 0 0]
                    (startedState\<lparr>obstacles := [passedCar]\<rparr>)) = 1"
proof -
  have h: "distinct (map obj_id (obstacles (startedState\<lparr>obstacles := [passedCar]\<rparr>))
             @ allocated [Frame 0.016 1 0 0, Frame 0.016 2 0 0])"
    by (simp add: passedCar_simps)
  have c1: "credited (Frame 0.016 1 0 0) (startedState\<lparr>obstacles := [passedCar]\<rparr>) = [0]"
    unfolding credited.simps w_scoring
    by (simp add: startedState_def creditsNow_def overtakeDue_def truthy_def passedCar_simps)
  have c2: "credited (Frame 0.016 2 0 0)
              (animate 0.016 1 0 0 (startedState\<lparr>obstacles := [passedCar]\<rparr>)) = []"
    unfolding w_frame1
    by (simp add: no_credit_when_flagged truthy_def)
  have l: "creditLog [Frame 0.016 1 0 0, Frame 0.016 2 0 0]
             (startedState\<lparr>obstacles := [passedCar]\<rparr>) = [0]"
    by (simp only: creditLog.simps step.simps c1 c2) simp
  have n: "carsOvertaken (run [Frame 0.016 1 0 0, Frame 0.016 2 0 0]
                    (startedState\<lparr>obstacles := [passedCar]\<rparr>)) = 1"
  proof -
    define w1 where "w1 = animate 0.016 1 0 0 (startedState\<lparr>obstacles := [passedCar]\<rparr>)"
    from frame_counters [of "0.016" 2 0 0 w1]
    have "carsOvertaken (animate 0.016 2 0 0 w1)
            = carsOvertaken w1 + length (credited (Frame 0.016 2 0 0) w1)"
      by blast
    also from c2 have "credited (Frame 0.016 2 0 0) w1 = []"
      by (simp only: w1_def)
    also have "carsOvertaken w1 = 1"
      unfolding w1_def w_frame1 by simp
    finally have "carsOvertaken (animate 0.016 2 0 0 w1) = 1"
      by simp
    then show ?thesis
      by (simp only: run.simps step.simps w1_def)
  qed
  from overtake_credited_once [OF h] h l n show ?thesis
    by simp
qed

end
